theory Spec2Isabelle
  imports Main
begin

section \<open>The markers table: data model\<close>

text \<open>
  The embedding follows \<^verbatim>\<open>src/vs/workbench/contrib/markers/browser/markersTable.ts\<close>.
  The classes and services that file imports (the marker model, the severity enum, the
  filter options, the label service, the virtual table) are not part of the source; their
  declarations are modelled from the spec and from the way the file uses them. Three
  field names differ from the source because the source's name is taken:
  \<open>marker_id\<close> for \<^verbatim>\<open>id\<close>, \<open>text_of\<close> for \<^verbatim>\<open>text\<close>, and \<open>match_start\<close>, \<open>match_end\<close> for
  \<^verbatim>\<open>start\<close>, \<^verbatim>\<open>end\<close>.
\<close>

text \<open>
  Modelled from the spec: the resource locator \<^verbatim>\<open>URI\<close> is imported; of its components the
  file reads the scheme, and the label service and the matchers read the rest.
\<close>

record URI =
  scheme :: string
  path :: string

text \<open>
  Modelled from the spec: the two scheme constants \<^verbatim>\<open>network.Schemas.walkThrough\<close> and
  \<^verbatim>\<open>network.Schemas.walkThroughSnippet\<close> are imported; the spec calls them the two
  internal pseudo-resource schemes of walkthrough content.
\<close>

definition Schemas_walkThrough :: string where
  "Schemas_walkThrough = ''walkThrough''"

definition Schemas_walkThroughSnippet :: string where
  "Schemas_walkThroughSnippet = ''walkThroughSnippet''"

text \<open>
  Modelled from the spec: the severity enum \<^verbatim>\<open>MarkerSeverity\<close> and its comparator
  \<^verbatim>\<open>MarkerSeverity.compare\<close> are imported. The spec names Error, Warning and Info and
  sorts by a numeric rank with Error before Warning before Info; the source tests a
  marker's severity against exactly these three. \<open>Hint\<close> stands for the remaining value of
  the enum: no toggle of the filter enables it, and it ranks last.
\<close>

datatype MarkerSeverity = Hint | Info | Warning | Error

text \<open>
  Modelled from the spec: the numeric rank by which the rows are sorted, Error before
  Warning before Info.
\<close>

fun severity_rank :: "MarkerSeverity \<Rightarrow> int" where
  "severity_rank Error = 0"
| "severity_rank Warning = 1"
| "severity_rank Info = 2"
| "severity_rank Hint = 3"

text \<open>
  Modelled from the spec: \<^verbatim>\<open>MarkerSeverity.compare\<close>, a comparator that sorts by ascending
  rank.
\<close>

definition compare :: "MarkerSeverity \<Rightarrow> MarkerSeverity \<Rightarrow> int" where
  "compare a b = severity_rank a - severity_rank b"

text \<open>
  Modelled from the spec: the marker record \<^verbatim>\<open>IMarker\<close> is imported. A marker has a
  resource, a severity, a message, an owner, an optional source label, an optional code
  (a plain string or a link with a display value and a target) and a start position.
\<close>

datatype MarkerCode = CodeString string | CodeLink (code_value: string) (code_target: URI)

record IMarker =
  owner :: string
  resource :: URI
  severity :: MarkerSeverity
  code :: "MarkerCode option"
  message :: string
  source :: "string option"
  startLineNumber :: nat
  startColumn :: nat

text \<open>Modelled from the spec: a match span \<^verbatim>\<open>IMatch\<close>, a range within a field.\<close>

record IMatch =
  match_start :: nat
  match_end :: nat

type_synonym RelatedInformation = "URI \<times> string"

text \<open>
  Modelled from the spec: class \<^verbatim>\<open>Marker\<close> is imported; the constructor of the row item
  passes it an id, the marker record and the related information.
\<close>

record Marker =
  marker_id :: string
  marker :: IMarker
  relatedInformation :: "RelatedInformation list"

text \<open>
  Class \<^verbatim>\<open>MarkerTableItem\<close> extends \<^verbatim>\<open>Marker\<close> by five optional match lists. An omitted
  constructor argument is \<open>None\<close>.
\<close>

record MarkerTableItem = Marker +
  sourceMatches :: "IMatch list option"
  codeMatches :: "IMatch list option"
  messageMatches :: "IMatch list option"
  fileMatches :: "IMatch list option"
  ownerMatches :: "IMatch list option"

text \<open>
  Modelled from the spec: the getter \<^verbatim>\<open>Marker.resource\<close>, inherited by the row item, is
  the resource of the marker record.
\<close>

definition Marker_resource :: "'a Marker_scheme \<Rightarrow> URI" where
  "Marker_resource m = resource (marker m)"

text \<open>
  The constructor of \<^verbatim>\<open>MarkerTableItem\<close>:
  \<^verbatim>\<open>super(marker.id, marker.marker, marker.relatedInformation)\<close>.
\<close>

definition new_MarkerTableItem ::
  "Marker \<Rightarrow> IMatch list option \<Rightarrow> IMatch list option \<Rightarrow> IMatch list option \<Rightarrow>
   IMatch list option \<Rightarrow> IMatch list option \<Rightarrow> MarkerTableItem" where
  "new_MarkerTableItem m sm cm mm fm om =
     \<lparr>marker_id = marker_id m, marker = marker m, relatedInformation = relatedInformation m,
      sourceMatches = sm, codeMatches = cm, messageMatches = mm, fileMatches = fm,
      ownerMatches = om\<rparr>"

text \<open>The marker a row item wraps: its \<^verbatim>\<open>Marker\<close> part.\<close>

definition wrapped :: "MarkerTableItem \<Rightarrow> Marker" where
  "wrapped it =
     \<lparr>marker_id = marker_id it, marker = marker it, relatedInformation = relatedInformation it\<rparr>"

text \<open>
  Modelled from the spec: a resource-marker group \<^verbatim>\<open>ResourceMarkers\<close>, a resource and its
  markers, and the filter options \<^verbatim>\<open>FilterOptions\<close>: three severity toggles, the include
  and exclude matchers (their \<^verbatim>\<open>matches\<close> method), and the text filter with its negate
  flag. The text is optional in the model, so that a missing text can be stated.
\<close>

record ResourceMarkers =
  group_resource :: URI
  markers :: "Marker list"

record TextFilter =
  text_of :: "string option"
  negate :: bool

record FilterOptions =
  showErrors :: bool
  showWarnings :: bool
  showInfos :: bool
  includesMatcher :: "URI \<Rightarrow> bool"
  excludesMatcher :: "URI \<Rightarrow> bool"
  textFilter :: TextFilter

text \<open>
  The collaborators the filtering calls: \<^verbatim>\<open>labelService.getUriLabel(resource, {relative: true})\<close>
  and the two static matchers \<^verbatim>\<open>FilterOptions._filter\<close> and \<^verbatim>\<open>FilterOptions._messageFilter\<close>,
  which return a list of match spans or the no-match signal (\<open>None\<close>). They are
  parameters of the model.
\<close>

record services =
  getUriLabel :: "URI \<Rightarrow> string"
  FilterOptions_filter :: "string \<Rightarrow> string \<Rightarrow> IMatch list option"
  FilterOptions_messageFilter :: "string \<Rightarrow> string \<Rightarrow> IMatch list option"

section \<open>JavaScript primitives\<close>

text \<open>Truthiness of a \<^verbatim>\<open>string | undefined\<close>: the empty string and undefined are falsy.\<close>

fun truthy_string :: "string option \<Rightarrow> bool" where
  "truthy_string None = False"
| "truthy_string (Some s) = (s \<noteq> [])"

text \<open>Truthiness of a marker code: a link object is truthy whatever its value.\<close>

fun truthy_code :: "MarkerCode option \<Rightarrow> bool" where
  "truthy_code None = False"
| "truthy_code (Some (CodeString s)) = (s \<noteq> [])"
| "truthy_code (Some (CodeLink v t)) = True"

text \<open>Truthiness of an \<^verbatim>\<open>IMatch[] | undefined\<close>: every array is truthy, the empty one too.\<close>

fun truthy_matches :: "IMatch list option \<Rightarrow> bool" where
  "truthy_matches None = False"
| "truthy_matches (Some ms) = True"

text \<open>
  \<^verbatim>\<open>Array.prototype.indexOf\<close>: the first index holding the searched value under strict
  equality (object identity for objects), or \<open>-1\<close>.
\<close>

fun indexOf_from :: "'a list \<Rightarrow> 'a \<Rightarrow> int \<Rightarrow> int" where
  "indexOf_from [] x i = - 1"
| "indexOf_from (y # ys) x i = (if y = x then i else indexOf_from ys x (i + 1))"

definition indexOf :: "'a list \<Rightarrow> 'a \<Rightarrow> int" where
  "indexOf xs x = indexOf_from xs x 0"

text \<open>
  \<^verbatim>\<open>Array.prototype.splice(start, deleteCount, ...items)\<close>, returning the array after the
  mutation: a negative start counts from the end, and both the start and the number of
  deleted elements are clamped to the array.
\<close>

definition splice :: "'a list \<Rightarrow> int \<Rightarrow> int \<Rightarrow> 'a list \<Rightarrow> 'a list" where
  "splice xs start deleteCount items =
     (let len = int (length xs);
          actualStart = (if start < 0 then max (len + start) 0 else min start len);
          actualDeleteCount = min (max deleteCount 0) (len - actualStart)
      in take (nat actualStart) xs @ items @ drop (nat (actualStart + actualDeleteCount)) xs)"

text \<open>
  \<^verbatim>\<open>Array.prototype.sort(compareFn)\<close>: a stable sort (ECMAScript 2019), here by insertion.
  An element is placed before the first later element it does not compare greater than.
\<close>

fun insert_sorted :: "('a \<Rightarrow> 'a \<Rightarrow> int) \<Rightarrow> 'a \<Rightarrow> 'a list \<Rightarrow> 'a list" where
  "insert_sorted cmp x [] = [x]"
| "insert_sorted cmp x (y # ys) =
     (if cmp x y \<le> 0 then x # y # ys else y # insert_sorted cmp x ys)"

fun array_sort :: "('a \<Rightarrow> 'a \<Rightarrow> int) \<Rightarrow> 'a list \<Rightarrow> 'a list" where
  "array_sort cmp [] = []"
| "array_sort cmp (x # xs) = insert_sorted cmp x (array_sort cmp xs)"

section \<open>The table controller\<close>

text \<open>
  Modelled from the spec: the virtual table \<^verbatim>\<open>WorkbenchTable\<close> is imported. It holds the
  rows and a focus (row indices). Of its operations only the replacement of all rows,
  \<^verbatim>\<open>table.splice(0, Number.POSITIVE_INFINITY, items)\<close>, is modelled.
\<close>

record WorkbenchTable =
  rows :: "MarkerTableItem list"
  focus :: "nat list"

definition table_splice_all :: "WorkbenchTable \<Rightarrow> MarkerTableItem list \<Rightarrow> WorkbenchTable" where
  "table_splice_all t items = t\<lparr>rows := items\<rparr>"

text \<open>
  Resource-marker groups are objects: the stored array holds references, and the heap maps
  a reference to the group it denotes. \<^verbatim>\<open>indexOf\<close> compares references.
\<close>

type_synonym ref = nat
type_synonym heap = "ref \<Rightarrow> ResourceMarkers"

text \<open>The state of class \<^verbatim>\<open>MarkersTable\<close> that the operations read and write.\<close>

record MarkersTable =
  itemCount :: nat
  table :: WorkbenchTable
  resourceMarkers :: "ref list"
  filterOptions :: FilterOptions

subsection \<open>Filtering and projection\<close>

text \<open>The severity filter of \<^verbatim>\<open>reset\<close>.\<close>

definition matchesSeverity :: "FilterOptions \<Rightarrow> 'a Marker_scheme \<Rightarrow> bool" where
  "matchesSeverity fo m =
     (showErrors fo \<and> Error = severity (marker m) \<or>
      showWarnings fo \<and> Warning = severity (marker m) \<or>
      showInfos fo \<and> Info = severity (marker m))"

text \<open>The five span lists of the text filter, each computed on its own.\<close>

definition sourceMatches_for :: "services \<Rightarrow> string \<Rightarrow> 'a Marker_scheme \<Rightarrow> IMatch list option" where
  "sourceMatches_for sv t m =
     (if truthy_string (source (marker m))
      then FilterOptions_filter sv t (the (source (marker m))) else None)"

definition codeMatches_for :: "services \<Rightarrow> string \<Rightarrow> 'a Marker_scheme \<Rightarrow> IMatch list option" where
  "codeMatches_for sv t m =
     (if truthy_code (code (marker m))
      then FilterOptions_filter sv t
             (case the (code (marker m)) of CodeString s \<Rightarrow> s | CodeLink v tg \<Rightarrow> v)
      else None)"

definition messageMatches_for :: "services \<Rightarrow> string \<Rightarrow> 'a Marker_scheme \<Rightarrow> IMatch list option" where
  "messageMatches_for sv t m = FilterOptions_messageFilter sv t (message (marker m))"

definition fileMatches_for :: "services \<Rightarrow> string \<Rightarrow> 'a Marker_scheme \<Rightarrow> IMatch list option" where
  "fileMatches_for sv t m =
     FilterOptions_messageFilter sv t (getUriLabel sv (Marker_resource m))"

definition ownerMatches_for :: "services \<Rightarrow> string \<Rightarrow> 'a Marker_scheme \<Rightarrow> IMatch list option" where
  "ownerMatches_for sv t m = FilterOptions_messageFilter sv t (owner (marker m))"

text \<open>
  \<^verbatim>\<open>const matched = sourceMatches || codeMatches || messageMatches || fileMatches || ownerMatches\<close>,
  read as a condition.
\<close>

definition matched :: "services \<Rightarrow> string \<Rightarrow> 'a Marker_scheme \<Rightarrow> bool" where
  "matched sv t m =
     (truthy_matches (sourceMatches_for sv t m) \<or> truthy_matches (codeMatches_for sv t m) \<or>
      truthy_matches (messageMatches_for sv t m) \<or> truthy_matches (fileMatches_for sv t m) \<or>
      truthy_matches (ownerMatches_for sv t m))"

text \<open>
  The body of the inner loop of \<^verbatim>\<open>reset\<close> for one marker: \<open>Some\<close> the row item it pushes,
  \<open>None\<close> when it continues without pushing.
\<close>

definition reset_marker :: "services \<Rightarrow> FilterOptions \<Rightarrow> Marker \<Rightarrow> MarkerTableItem option" where
  "reset_marker sv fo m =
     (if scheme (Marker_resource m) = Schemas_walkThrough \<or>
         scheme (Marker_resource m) = Schemas_walkThroughSnippet then None
      else if excludesMatcher fo (Marker_resource m) then None
      else if includesMatcher fo (Marker_resource m)
        then Some (new_MarkerTableItem m None None None None None)
      else if \<not> matchesSeverity fo m then None
      else if truthy_string (text_of (textFilter fo)) then
        (let t = the (text_of (textFilter fo)) in
         if (matched sv t m \<and> \<not> negate (textFilter fo)) \<or>
            (\<not> matched sv t m \<and> negate (textFilter fo))
         then Some (new_MarkerTableItem m (sourceMatches_for sv t m) (codeMatches_for sv t m)
                      (messageMatches_for sv t m) (fileMatches_for sv t m)
                      (ownerMatches_for sv t m))
         else None)
      else Some (new_MarkerTableItem m None None None None None))"

text \<open>The two loops of \<^verbatim>\<open>reset\<close>, with the array \<^verbatim>\<open>items\<close> as accumulator.\<close>

fun reset_inner ::
  "services \<Rightarrow> FilterOptions \<Rightarrow> Marker list \<Rightarrow> MarkerTableItem list \<Rightarrow> MarkerTableItem list" where
  "reset_inner sv fo [] items = items"
| "reset_inner sv fo (m # ms) items =
     reset_inner sv fo ms
       (case reset_marker sv fo m of None \<Rightarrow> items | Some it \<Rightarrow> items @ [it])"

fun reset_outer ::
  "services \<Rightarrow> FilterOptions \<Rightarrow> ResourceMarkers list \<Rightarrow> MarkerTableItem list \<Rightarrow>
   MarkerTableItem list" where
  "reset_outer sv fo [] items = items"
| "reset_outer sv fo (g # gs) items = reset_outer sv fo gs (reset_inner sv fo (markers g) items)"

text \<open>The row items in encounter order, before the sort.\<close>

definition collect_items :: "services \<Rightarrow> FilterOptions \<Rightarrow> ResourceMarkers list \<Rightarrow> MarkerTableItem list" where
  "collect_items sv fo gs = reset_outer sv fo gs []"

text \<open>
  The comparator of the sort:
  \<^verbatim>\<open>(a, b) => MarkerSeverity.compare(a.marker.severity, b.marker.severity)\<close>.
\<close>

definition compare_items :: "MarkerTableItem \<Rightarrow> MarkerTableItem \<Rightarrow> int" where
  "compare_items a b = compare (severity (marker a)) (severity (marker b))"

subsection \<open>Operations\<close>

text \<open>
  \<^verbatim>\<open>reset\<close> stores the groups, collects the row items, sets \<^verbatim>\<open>_itemCount\<close> to their number
  and replaces all rows of the table by the sorted items.
\<close>

definition reset :: "services \<Rightarrow> heap \<Rightarrow> MarkersTable \<Rightarrow> ref list \<Rightarrow> MarkersTable" where
  "reset sv h st rms =
     (let items = collect_items sv (filterOptions st) (map h rms)
      in st\<lparr>resourceMarkers := rms,
            itemCount := length items,
            table := table_splice_all (table st) (array_sort compare_items items)\<rparr>)"

text \<open>\<^verbatim>\<open>filterMarkers\<close> stores the filter options and resets.\<close>

definition filterMarkers ::
  "services \<Rightarrow> heap \<Rightarrow> MarkersTable \<Rightarrow> ref list \<Rightarrow> FilterOptions \<Rightarrow> MarkersTable" where
  "filterMarkers sv h st rms fo = reset sv h (st\<lparr>filterOptions := fo\<rparr>) rms"

text \<open>The loop of \<^verbatim>\<open>update\<close> over the replacement groups, on the stored array.\<close>

fun update_loop :: "ref list \<Rightarrow> ref list \<Rightarrow> ref list" where
  "update_loop stored [] = stored"
| "update_loop stored (r # rs) = update_loop (splice stored (indexOf stored r) 1 [r]) rs"

text \<open>\<^verbatim>\<open>update\<close> runs the loop and resets with the stored array.\<close>

definition update :: "services \<Rightarrow> heap \<Rightarrow> MarkersTable \<Rightarrow> ref list \<Rightarrow> MarkersTable" where
  "update sv h st rms = reset sv h st (update_loop (resourceMarkers st) rms)"

text \<open>\<^verbatim>\<open>getVisibleItemCount\<close> returns \<^verbatim>\<open>_itemCount\<close>.\<close>

definition getVisibleItemCount :: "MarkersTable \<Rightarrow> nat" where
  "getVisibleItemCount st = itemCount st"

text \<open>The body of \<^verbatim>\<open>getFocus\<close> is \<^verbatim>\<open>return [];\<close>.\<close>

definition getFocus :: "MarkersTable \<Rightarrow> Marker option list" where
  "getFocus st = []"

text \<open>The markers of the dataset, flattened in encounter order.\<close>

definition all_markers :: "heap \<Rightarrow> ref list \<Rightarrow> Marker list" where
  "all_markers h rms = concat (map (\<lambda>r. markers (h r)) rms)"

section \<open>Vocabulary of the properties\<close>

text \<open>A marker of one of the two walkthrough pseudo-resource schemes.\<close>

definition is_walkThrough :: "'a Marker_scheme \<Rightarrow> bool" where
  "is_walkThrough m =
     (scheme (Marker_resource m) = Schemas_walkThrough \<or>
      scheme (Marker_resource m) = Schemas_walkThroughSnippet)"

text \<open>
  The text filter under the negate rule: with a text set, matched and not negated, or
  not matched and negated; without a text, nothing is asked.
\<close>

definition satisfies_textFilter :: "services \<Rightarrow> FilterOptions \<Rightarrow> 'a Marker_scheme \<Rightarrow> bool" where
  "satisfies_textFilter sv fo m =
     (if truthy_string (text_of (textFilter fo))
      then (matched sv (the (text_of (textFilter fo))) m \<and> \<not> negate (textFilter fo)) \<or>
           (\<not> matched sv (the (text_of (textFilter fo))) m \<and> negate (textFilter fo))
      else True)"

text \<open>A row item none of whose five span fields is set.\<close>

definition no_spans :: "MarkerTableItem \<Rightarrow> bool" where
  "no_spans it =
     (sourceMatches it = None \<and> codeMatches it = None \<and> messageMatches it = None \<and>
      fileMatches it = None \<and> ownerMatches it = None)"

text \<open>The row item \<^verbatim>\<open>new MarkerTableItem(marker)\<close>.\<close>

definition plain_item :: "Marker \<Rightarrow> MarkerTableItem" where
  "plain_item m = new_MarkerTableItem m None None None None None"

text \<open>The checks that precede the text filter: scheme, exclude, include, severity.\<close>

definition passes_checks :: "FilterOptions \<Rightarrow> 'a Marker_scheme \<Rightarrow> bool" where
  "passes_checks fo m =
     (\<not> is_walkThrough m \<and> \<not> excludesMatcher fo (Marker_resource m) \<and>
      (includesMatcher fo (Marker_resource m) \<or> matchesSeverity fo m))"

text \<open>In the words of the spec: a field produced a non-empty span list.\<close>

definition nonempty_matches :: "IMatch list option \<Rightarrow> bool" where
  "nonempty_matches x = (case x of None \<Rightarrow> False | Some ms \<Rightarrow> ms \<noteq> [])"

section \<open>Example data\<close>

text \<open>
  A matcher for the examples: the text matches a word that starts with it, and the span
  covers the text.
\<close>

definition example_filter :: "string \<Rightarrow> string \<Rightarrow> IMatch list option" where
  "example_filter t s =
     (if take (length t) s = t then Some [\<lparr>match_start = 0, match_end = length t\<rparr>] else None)"

definition example_services :: services where
  "example_services =
     \<lparr>getUriLabel = path, FilterOptions_filter = example_filter,
      FilterOptions_messageFilter = example_filter\<rparr>"

definition uri_a :: URI where
  "uri_a = \<lparr>scheme = ''file'', path = ''a.ts''\<rparr>"

definition uri_b :: URI where
  "uri_b = \<lparr>scheme = ''file'', path = ''b.ts''\<rparr>"

definition marker_error :: Marker where
  "marker_error =
     \<lparr>marker_id = ''m1'',
      marker = \<lparr>owner = ''typescript'', resource = uri_a, severity = Error,
                code = Some (CodeString ''1005''), message = ''missing semicolon'',
                source = Some ''ts'', startLineNumber = 3, startColumn = 9\<rparr>,
      relatedInformation = []\<rparr>"

definition marker_warning :: Marker where
  "marker_warning =
     \<lparr>marker_id = ''m2'',
      marker = \<lparr>owner = ''eslint'', resource = uri_a, severity = Warning,
                code = None, message = ''unused var'',
                source = None, startLineNumber = 7, startColumn = 1\<rparr>,
      relatedInformation = []\<rparr>"

definition marker_info :: Marker where
  "marker_info =
     \<lparr>marker_id = ''m3'',
      marker = \<lparr>owner = ''eslint'', resource = uri_b, severity = Info,
                code = Some (CodeLink ''foo-rule'' \<lparr>scheme = ''https'', path = ''rules''\<rparr>),
                message = ''prefer const'',
                source = Some ''eslint'', startLineNumber = 1, startColumn = 1\<rparr>,
      relatedInformation = []\<rparr>"

definition marker_late_warning :: Marker where
  "marker_late_warning =
     \<lparr>marker_id = ''m4'',
      marker = \<lparr>owner = ''typescript'', resource = uri_b, severity = Warning,
                code = Some (CodeString ''6133''), message = ''declared but never read'',
                source = Some ''ts'', startLineNumber = 12, startColumn = 5\<rparr>,
      relatedInformation = []\<rparr>"

text \<open>Three group objects: reference 0, reference 1, and every other reference.\<close>

definition example_heap :: heap where
  "example_heap r =
     (if r = 0 then \<lparr>group_resource = uri_a, markers = [marker_warning, marker_error]\<rparr>
      else if r = 1 then \<lparr>group_resource = uri_b, markers = [marker_info]\<rparr>
      else \<lparr>group_resource = uri_b, markers = [marker_late_warning]\<rparr>)"

definition show_all_filter :: FilterOptions where
  "show_all_filter =
     \<lparr>showErrors = True, showWarnings = True, showInfos = True,
      includesMatcher = (\<lambda>u. False), excludesMatcher = (\<lambda>u. False),
      textFilter = \<lparr>text_of = None, negate = False\<rparr>\<rparr>"

definition errors_only_filter :: FilterOptions where
  "errors_only_filter =
     \<lparr>showErrors = True, showWarnings = False, showInfos = False,
      includesMatcher = (\<lambda>u. False), excludesMatcher = (\<lambda>u. False),
      textFilter = \<lparr>text_of = Some [], negate = False\<rparr>\<rparr>"

definition foo_filter :: "bool \<Rightarrow> FilterOptions" where
  "foo_filter neg =
     \<lparr>showErrors = True, showWarnings = True, showInfos = True,
      includesMatcher = (\<lambda>u. False), excludesMatcher = (\<lambda>u. False),
      textFilter = \<lparr>text_of = Some ''foo'', negate = neg\<rparr>\<rparr>"

definition include_b_filter :: FilterOptions where
  "include_b_filter =
     \<lparr>showErrors = False, showWarnings = False, showInfos = False,
      includesMatcher = (\<lambda>u. path u = ''b.ts''), excludesMatcher = (\<lambda>u. False),
      textFilter = \<lparr>text_of = Some ''foo'', negate = True\<rparr>\<rparr>"

definition include_and_exclude_filter :: FilterOptions where
  "include_and_exclude_filter =
     \<lparr>showErrors = True, showWarnings = True, showInfos = True,
      includesMatcher = (\<lambda>u. True), excludesMatcher = (\<lambda>u. True),
      textFilter = \<lparr>text_of = None, negate = False\<rparr>\<rparr>"

definition empty_table :: "FilterOptions \<Rightarrow> MarkersTable" where
  "empty_table fo =
     \<lparr>itemCount = 0, table = \<lparr>rows = [], focus = []\<rparr>, resourceMarkers = [],
      filterOptions = fo\<rparr>"

definition focused_table :: MarkersTable where
  "focused_table =
     \<lparr>itemCount = 1, table = \<lparr>rows = [plain_item marker_error], focus = [0]\<rparr>,
      resourceMarkers = [0], filterOptions = show_all_filter\<rparr>"

definition foo_info_item :: MarkerTableItem where
  "foo_info_item =
     new_MarkerTableItem marker_info None (Some [\<lparr>match_start = 0, match_end = 3\<rparr>])
       None None None"

section \<open>Auxiliary facts\<close>

lemmas fixture_defs =
  example_services_def example_filter_def example_heap_def empty_table_def
  marker_error_def marker_warning_def marker_info_def marker_late_warning_def
  uri_a_def uri_b_def show_all_filter_def errors_only_filter_def foo_filter_def
  include_b_filter_def include_and_exclude_filter_def

lemmas model_defs =
  reset_def collect_items_def reset_marker_def table_splice_all_def Marker_resource_def
  Schemas_walkThrough_def Schemas_walkThroughSnippet_def matchesSeverity_def matched_def
  sourceMatches_for_def codeMatches_for_def messageMatches_for_def fileMatches_for_def
  ownerMatches_for_def compare_items_def compare_def new_MarkerTableItem_def all_markers_def
  is_walkThrough_def satisfies_textFilter_def wrapped_def no_spans_def plain_item_def
  passes_checks_def filterMarkers_def update_def indexOf_def splice_def getVisibleItemCount_def

subsection \<open>The loops as a filtering map\<close>

lemma map_filter_append:
  "List.map_filter f (xs @ ys) = List.map_filter f xs @ List.map_filter f ys"
  by (simp add: List.map_filter_def)

lemma set_map_filter:
  "set (List.map_filter f xs) = {y. \<exists>x \<in> set xs. f x = Some y}"
  by (induction xs) (auto split: option.splits)

lemma map_filter_if_Some:
  "List.map_filter (\<lambda>x. if P x then Some (f x) else None) xs = map f (filter P xs)"
  by (induction xs) simp_all

lemma reset_inner_append:
  "reset_inner sv fo ms items = items @ List.map_filter (reset_marker sv fo) ms"
  by (induction ms arbitrary: items) (simp_all split: option.split)

lemma reset_outer_append:
  "reset_outer sv fo gs items =
     items @ List.map_filter (reset_marker sv fo) (concat (map markers gs))"
  by (induction gs arbitrary: items) (simp_all add: reset_inner_append map_filter_append)

lemma collect_items_map_filter:
  "collect_items sv fo (map h rms) = List.map_filter (reset_marker sv fo) (all_markers h rms)"
  by (simp add: collect_items_def all_markers_def reset_outer_append comp_def)

subsection \<open>The sort\<close>

lemma array_sort_sort_key:
  "array_sort compare_items xs = sort_key (\<lambda>it. severity_rank (severity (marker it))) xs"
proof (induction xs)
  case Nil
  show ?case by simp
next
  case (Cons x xs)
  have ins: "insert_sorted compare_items x ys =
      insort_key (\<lambda>it. severity_rank (severity (marker it))) x ys" for ys
    by (induction ys) (simp_all add: compare_items_def compare_def)
  show ?case by (simp add: Cons.IH ins)
qed

lemma severity_rank_inj: "(severity_rank a = severity_rank b) = (a = b)"
  by (cases a; cases b) simp_all

subsection \<open>The rows after a reset\<close>

lemma rows_reset:
  "rows (table (reset sv h st rms)) =
     array_sort compare_items (collect_items sv (filterOptions st) (map h rms))"
  by (simp add: reset_def Let_def table_splice_all_def)

lemma set_rows_reset:
  "set (rows (table (reset sv h st rms))) =
     {it. \<exists>m \<in> set (all_markers h rms). reset_marker sv (filterOptions st) m = Some it}"
  by (simp add: rows_reset array_sort_sort_key collect_items_map_filter set_map_filter)

lemma rows_filterMarkers:
  "rows (table (filterMarkers sv h st rms fo)) =
     array_sort compare_items (collect_items sv fo (map h rms))"
  by (simp add: filterMarkers_def rows_reset)

lemma filterOptions_empty_table [simp]: "filterOptions (empty_table fo) = fo"
  by (simp add: empty_table_def)

subsection \<open>Row items and the markers they wrap\<close>

lemma wrapped_new_MarkerTableItem [simp]:
  "wrapped (new_MarkerTableItem m sm cm mm fm om) = m"
  by (simp add: wrapped_def new_MarkerTableItem_def)

lemma marker_new_MarkerTableItem [simp]:
  "marker (new_MarkerTableItem m sm cm mm fm om) = marker m"
  by (simp add: new_MarkerTableItem_def)

lemma Marker_resource_new [simp]:
  "Marker_resource (new_MarkerTableItem m sm cm mm fm om) = Marker_resource m"
  by (simp add: Marker_resource_def)

lemma matchesSeverity_new [simp]:
  "matchesSeverity fo (new_MarkerTableItem m sm cm mm fm om) = matchesSeverity fo m"
  by (simp add: matchesSeverity_def)

lemma matched_new [simp]:
  "matched sv t (new_MarkerTableItem m sm cm mm fm om) = matched sv t m"
  by (simp add: matched_def sourceMatches_for_def codeMatches_for_def messageMatches_for_def
      fileMatches_for_def ownerMatches_for_def)

lemma is_walkThrough_new [simp]:
  "is_walkThrough (new_MarkerTableItem m sm cm mm fm om) = is_walkThrough m"
  by (simp add: is_walkThrough_def)

lemma satisfies_textFilter_new [simp]:
  "satisfies_textFilter sv fo (new_MarkerTableItem m sm cm mm fm om) =
     satisfies_textFilter sv fo m"
  by (simp add: satisfies_textFilter_def)

lemma truthy_matches_iff: "truthy_matches x = (x \<noteq> None)"
  by (cases x) simp_all

subsection \<open>The loop body, case by case\<close>

lemma reset_marker_SomeD:
  assumes "reset_marker sv fo m = Some it"
  shows "\<not> is_walkThrough m"
    and "\<not> excludesMatcher fo (Marker_resource m)"
    and "includesMatcher fo (Marker_resource m) \<or>
         (matchesSeverity fo m \<and> satisfies_textFilter sv fo m)"
  using assms
  by (auto simp: reset_marker_def is_walkThrough_def satisfies_textFilter_def Let_def
      split: if_splits)

lemma reset_marker_Some_new:
  assumes "reset_marker sv fo m = Some it"
  shows "\<exists>sm cm mm fm om. it = new_MarkerTableItem m sm cm mm fm om"
proof (cases "includesMatcher fo (Marker_resource m) \<or>
              \<not> truthy_string (text_of (textFilter fo))")
  case True
  with assms have "it = new_MarkerTableItem m None None None None None"
    by (auto simp: reset_marker_def Let_def split: if_splits)
  then show ?thesis by blast
next
  case False
  with assms have "it = new_MarkerTableItem m
      (sourceMatches_for sv (the (text_of (textFilter fo))) m)
      (codeMatches_for sv (the (text_of (textFilter fo))) m)
      (messageMatches_for sv (the (text_of (textFilter fo))) m)
      (fileMatches_for sv (the (text_of (textFilter fo))) m)
      (ownerMatches_for sv (the (text_of (textFilter fo))) m)"
    by (auto simp: reset_marker_def Let_def split: if_splits)
  then show ?thesis by blast
qed

lemma reset_marker_plain:
  assumes "\<not> is_walkThrough m" "\<not> excludesMatcher fo (Marker_resource m)"
    and "includesMatcher fo (Marker_resource m) \<or>
         (matchesSeverity fo m \<and> \<not> truthy_string (text_of (textFilter fo)))"
  shows "reset_marker sv fo m = Some (plain_item m)"
  using assms by (auto simp: reset_marker_def is_walkThrough_def plain_item_def)

lemma reset_marker_text:
  assumes "\<not> is_walkThrough m" "\<not> excludesMatcher fo (Marker_resource m)"
    and "\<not> includesMatcher fo (Marker_resource m)" "matchesSeverity fo m"
    and "text_of (textFilter fo) = Some t" "t \<noteq> []"
  shows "reset_marker sv fo m =
     (if matched sv t m \<noteq> negate (textFilter fo)
      then Some (new_MarkerTableItem m (sourceMatches_for sv t m) (codeMatches_for sv t m)
                   (messageMatches_for sv t m) (fileMatches_for sv t m) (ownerMatches_for sv t m))
      else None)"
  using assms by (auto simp: reset_marker_def is_walkThrough_def Let_def)

lemma reset_marker_no_text:
  assumes "\<not> truthy_string (text_of (textFilter fo))"
  shows "reset_marker sv fo m = (if passes_checks fo m then Some (plain_item m) else None)"
  using assms
  by (simp add: reset_marker_def passes_checks_def is_walkThrough_def plain_item_def)

lemma wrapped_rows_iff:
  "m \<in> set (map wrapped (rows (table (reset sv h st rms)))) \<longleftrightarrow>
   m \<in> set (all_markers h rms) \<and> reset_marker sv (filterOptions st) m \<noteq> None"
proof
  assume "m \<in> set (map wrapped (rows (table (reset sv h st rms))))"
  then obtain it m' where "m' \<in> set (all_markers h rms)"
    and r: "reset_marker sv (filterOptions st) m' = Some it" and w: "wrapped it = m"
    by (auto simp: set_rows_reset)
  moreover from reset_marker_Some_new[OF r] w have "m' = m" by auto
  ultimately show "m \<in> set (all_markers h rms) \<and> reset_marker sv (filterOptions st) m \<noteq> None"
    by auto
next
  assume a: "m \<in> set (all_markers h rms) \<and> reset_marker sv (filterOptions st) m \<noteq> None"
  then obtain it where r: "reset_marker sv (filterOptions st) m = Some it" by auto
  from reset_marker_Some_new[OF r] have "wrapped it = m" by auto
  with a r have "\<exists>it \<in> set (rows (table (reset sv h st rms))). wrapped it = m"
    by (auto simp: set_rows_reset)
  then show "m \<in> set (map wrapped (rows (table (reset sv h st rms))))"
    by auto
qed

subsection \<open>The examples, evaluated\<close>

lemma rows_show_all:
  "rows (table (reset example_services example_heap (empty_table show_all_filter) [0, 1, 2])) =
     [plain_item marker_error, plain_item marker_warning, plain_item marker_late_warning,
      plain_item marker_info]"
  by (simp add: model_defs fixture_defs)

lemma collect_show_all:
  "collect_items example_services show_all_filter (map example_heap [0, 1, 2]) =
     [plain_item marker_warning, plain_item marker_error, plain_item marker_info,
      plain_item marker_late_warning]"
  by (simp add: model_defs fixture_defs)

lemma rows_foo:
  "rows (table (reset example_services example_heap (empty_table (foo_filter False)) [0, 1, 2])) =
     [foo_info_item]"
  by (simp add: model_defs fixture_defs foo_info_item_def)


lemma example_markers:
  "all_markers example_heap [0, 1, 2] =
     [marker_warning, marker_error, marker_info, marker_late_warning]"
  by (simp add: all_markers_def example_heap_def)

subsection \<open>indexOf and splice in the loop of update\<close>

lemma indexOf_from_found:
  "x \<in> set xs \<Longrightarrow> 0 \<le> i \<Longrightarrow>
     i \<le> indexOf_from xs x i \<and> nat (indexOf_from xs x i - i) < length xs \<and>
     xs ! nat (indexOf_from xs x i - i) = x"
proof (induction xs arbitrary: i)
  case Nil
  then show ?case by simp
next
  case (Cons y ys)
  show ?case
  proof (cases "y = x")
    case True
    then show ?thesis by simp
  next
    case False
    with Cons.prems have "x \<in> set ys" by simp
    from Cons.IH[OF this, of "i + 1"] Cons.prems(2)
    have ih: "i + 1 \<le> indexOf_from ys x (i + 1)"
      "nat (indexOf_from ys x (i + 1) - (i + 1)) < length ys"
      "ys ! nat (indexOf_from ys x (i + 1) - (i + 1)) = x"
      by simp_all
    have "nat (indexOf_from ys x (i + 1) - i) = Suc (nat (indexOf_from ys x (i + 1) - (i + 1)))"
      using ih(1) by simp
    with ih False show ?thesis by simp
  qed
qed

lemma indexOf_from_missing: "x \<notin> set xs \<Longrightarrow> indexOf_from xs x i = - 1"
  by (induction xs arbitrary: i) auto

text \<open>A group found by identity is replaced by itself: the stored array does not change.\<close>

lemma splice_found:
  assumes "x \<in> set xs"
  shows "splice xs (indexOf xs x) 1 [x] = xs"
proof -
  from indexOf_from_found[OF assms, of 0]
  have i: "0 \<le> indexOf xs x" "nat (indexOf xs x) < length xs" "xs ! nat (indexOf xs x) = x"
    by (simp_all add: indexOf_def)
  let ?k = "nat (indexOf xs x)"
  have "take ?k xs @ [x] @ drop (Suc ?k) xs = xs"
    using i(2,3) by (metis append_Cons append_Nil id_take_nth_drop)
  moreover have "nat (indexOf xs x + 1) = Suc ?k" using i(1) by simp
  moreover have "indexOf xs x < int (length xs)" using i(1,2) by linarith
  ultimately show ?thesis
    using i(1) by (simp add: splice_def Let_def min_def)
qed

lemma update_loop_found:
  "set rms \<subseteq> set stored \<Longrightarrow> update_loop stored rms = stored"
  by (induction rms) (simp_all add: splice_found)

text \<open>
  A group not found gives index \<open>-1\<close>, and \<^verbatim>\<open>splice(-1, 1, g)\<close> overwrites the last
  element of the stored array.
\<close>

lemma splice_missing:
  assumes "x \<notin> set xs"
  shows "splice xs (indexOf xs x) 1 [x] = butlast xs @ [x]"
  using assms
  by (cases xs rule: rev_cases)
     (simp_all add: splice_def Let_def indexOf_def indexOf_from_missing butlast_conv_take)

text \<open>
  The code tests the five span lists for truthiness, and every array is truthy. Where the
  matchers never answer with an empty span list, a truthy span list and a non-empty one
  are the same thing.
\<close>

lemma matched_nonempty_spans:
  assumes "\<forall>s. FilterOptions_filter sv t s \<noteq> Some []"
    and "\<forall>s. FilterOptions_messageFilter sv t s \<noteq> Some []"
  shows "matched sv t m \<longleftrightarrow>
     nonempty_matches (sourceMatches_for sv t m) \<or> nonempty_matches (codeMatches_for sv t m) \<or>
     nonempty_matches (messageMatches_for sv t m) \<or> nonempty_matches (fileMatches_for sv t m) \<or>
     nonempty_matches (ownerMatches_for sv t m)"
proof -
  have ne: "nonempty_matches x = truthy_matches x" if "x \<noteq> Some []" for x
    using that by (cases x) (simp_all add: nonempty_matches_def)
  have "sourceMatches_for sv t m \<noteq> Some []" "codeMatches_for sv t m \<noteq> Some []"
    "messageMatches_for sv t m \<noteq> Some []" "fileMatches_for sv t m \<noteq> Some []"
    "ownerMatches_for sv t m \<noteq> Some []"
    using assms
    by (simp_all add: sourceMatches_for_def codeMatches_for_def messageMatches_for_def
        fileMatches_for_def ownerMatches_for_def)
  then show ?thesis by (simp add: matched_def ne)
qed

section \<open>The visible set\<close>

text \<open>
  Claim C1. Whatever the groups and the filter, every row that \<^verbatim>\<open>reset\<close> leaves in the
  table wraps a marker of the dataset that is not of a walkthrough scheme, is not matched
  by the exclude matcher, and either is matched by the include matcher or has its severity
  toggle enabled and satisfies the text filter under the negate rule. The same holds for
  \<^verbatim>\<open>filterMarkers\<close>, with the filter it is given.
\<close>

theorem visible_rows_pass_filter:
  "(\<forall>it \<in> set (rows (table (reset sv h st rms))).
      wrapped it \<in> set (all_markers h rms) \<and>
      \<not> is_walkThrough it \<and>
      \<not> excludesMatcher (filterOptions st) (Marker_resource it) \<and>
      (includesMatcher (filterOptions st) (Marker_resource it) \<or>
       (matchesSeverity (filterOptions st) it \<and> satisfies_textFilter sv (filterOptions st) it))) \<and>
   (\<forall>it \<in> set (rows (table (filterMarkers sv h st rms fo))).
      wrapped it \<in> set (all_markers h rms) \<and>
      \<not> is_walkThrough it \<and>
      \<not> excludesMatcher fo (Marker_resource it) \<and>
      (includesMatcher fo (Marker_resource it) \<or>
       (matchesSeverity fo it \<and> satisfies_textFilter sv fo it)))"
proof -
  have key: "wrapped it \<in> set (all_markers h rms) \<and> \<not> is_walkThrough it \<and>
      \<not> excludesMatcher (filterOptions s) (Marker_resource it) \<and>
      (includesMatcher (filterOptions s) (Marker_resource it) \<or>
       (matchesSeverity (filterOptions s) it \<and> satisfies_textFilter sv (filterOptions s) it))"
    if "it \<in> set (rows (table (reset sv h s rms)))" for it s
  proof -
    from that obtain m where m: "m \<in> set (all_markers h rms)"
      and r: "reset_marker sv (filterOptions s) m = Some it"
      by (auto simp: set_rows_reset)
    from reset_marker_Some_new[OF r] obtain sm cm mm fm om
      where it: "it = new_MarkerTableItem m sm cm mm fm om" by blast
    show ?thesis
      using m reset_marker_SomeD[OF r] by (simp add: it)
  qed
  have "filterOptions (st\<lparr>filterOptions := fo\<rparr>) = fo" by simp
  with key[of _ st] key[of _ "st\<lparr>filterOptions := fo\<rparr>"] show ?thesis
    unfolding filterMarkers_def by metis
qed

theorem visible_rows_pass_filter_witness:
  "foo_info_item \<in> set (rows (table (reset example_services example_heap
                                 (empty_table (foo_filter False)) [0, 1, 2]))) \<and>
   foo_info_item \<in> set (rows (table (filterMarkers example_services example_heap
                                 (empty_table show_all_filter) [0, 1, 2] (foo_filter False)))) \<and>
   wrapped foo_info_item \<in> set (all_markers example_heap [0, 1, 2]) \<and>
   \<not> is_walkThrough foo_info_item \<and>
   \<not> excludesMatcher (foo_filter False) (Marker_resource foo_info_item) \<and>
   matchesSeverity (foo_filter False) foo_info_item \<and>
   satisfies_textFilter example_services (foo_filter False) foo_info_item"
proof -
  have fm: "rows (table (filterMarkers example_services example_heap
                    (empty_table show_all_filter) [0, 1, 2] (foo_filter False))) =
            rows (table (reset example_services example_heap
                    (empty_table (foo_filter False)) [0, 1, 2]))"
    by (simp add: rows_filterMarkers rows_reset)
  have ni: "\<not> includesMatcher (foo_filter False) (Marker_resource foo_info_item)"
    by (simp add: foo_filter_def)
  show ?thesis
    using visible_rows_pass_filter[of example_services example_heap
        "empty_table (foo_filter False)" "[0, 1, 2]" "foo_filter False"] ni
    unfolding filterOptions_empty_table fm rows_foo by simp
qed

text \<open>
  Claim C2. In the rows that \<^verbatim>\<open>reset\<close> leaves in the table the severity rank never
  decreases from a row to the next (Error before Warning before Info), and the rows of one
  severity keep the order in which the loops met them: the sort is stable, so the order
  is fixed by the input.
\<close>

theorem rows_sorted_by_severity_stable:
  "sorted (map (\<lambda>it. severity_rank (severity (marker it))) (rows (table (reset sv h st rms)))) \<and>
   (\<forall>i. Suc i < length (rows (table (reset sv h st rms))) \<longrightarrow>
      severity_rank (severity (marker (rows (table (reset sv h st rms)) ! i))) \<le>
      severity_rank (severity (marker (rows (table (reset sv h st rms)) ! Suc i)))) \<and>
   (\<forall>s. filter (\<lambda>it. severity (marker it) = s) (rows (table (reset sv h st rms))) =
        filter (\<lambda>it. severity (marker it) = s)
          (collect_items sv (filterOptions st) (map h rms))) \<and>
   severity_rank Error < severity_rank Warning \<and> severity_rank Warning < severity_rank Info"
proof -
  let ?key = "\<lambda>it. severity_rank (severity (marker it))"
  let ?items = "collect_items sv (filterOptions st) (map h rms)"
  have rs: "rows (table (reset sv h st rms)) = sort_key ?key ?items"
    by (simp add: rows_reset array_sort_sort_key)
  have srt: "sorted (map ?key (sort_key ?key ?items))"
    by (rule sorted_sort_key)
  have adj: "?key (sort_key ?key ?items ! i) \<le> ?key (sort_key ?key ?items ! Suc i)"
    if "Suc i < length (sort_key ?key ?items)" for i
  proof -
    from that have "map ?key (sort_key ?key ?items) ! i \<le> map ?key (sort_key ?key ?items) ! Suc i"
      using srt by (intro sorted_nth_mono) simp_all
    with that show ?thesis by simp
  qed
  have stab: "filter (\<lambda>it. severity (marker it) = s) (sort_key ?key ?items) =
      filter (\<lambda>it. severity (marker it) = s) ?items" for s
    using sort_key_stable[of ?key "severity_rank s" ?items] by (simp add: severity_rank_inj)
  have ranks: "severity_rank Error < severity_rank Warning \<and>
      severity_rank Warning < severity_rank Info"
    by simp
  show ?thesis unfolding rs using srt adj stab ranks by blast
qed

theorem rows_sorted_by_severity_stable_witness:
  "collect_items example_services show_all_filter (map example_heap [0, 1, 2]) =
     [plain_item marker_warning, plain_item marker_error, plain_item marker_info,
      plain_item marker_late_warning] \<and>
   rows (table (reset example_services example_heap (empty_table show_all_filter) [0, 1, 2])) =
     [plain_item marker_error, plain_item marker_warning, plain_item marker_late_warning,
      plain_item marker_info] \<and>
   severity_rank (severity (marker (plain_item marker_error))) \<le>
     severity_rank (severity (marker (plain_item marker_warning))) \<and>
   severity_rank (severity (marker (plain_item marker_warning))) \<le>
     severity_rank (severity (marker (plain_item marker_late_warning))) \<and>
   severity_rank (severity (marker (plain_item marker_late_warning))) \<le>
     severity_rank (severity (marker (plain_item marker_info))) \<and>
   filter (\<lambda>it. severity (marker it) = Warning)
     (rows (table (reset example_services example_heap (empty_table show_all_filter) [0, 1, 2]))) =
     filter (\<lambda>it. severity (marker it) = Warning)
       [plain_item marker_warning, plain_item marker_error, plain_item marker_info,
        plain_item marker_late_warning]"
proof -
  let ?rs = "rows (table (reset example_services example_heap (empty_table show_all_filter)
                           [0, 1, 2]))"
  note t = rows_sorted_by_severity_stable[of example_services example_heap
        "empty_table show_all_filter" "[0, 1, 2]"]
  from t have adj: "\<forall>i. Suc i < length ?rs \<longrightarrow>
      severity_rank (severity (marker (?rs ! i))) \<le> severity_rank (severity (marker (?rs ! Suc i)))"
    by blast
  from t have stab: "filter (\<lambda>it. severity (marker it) = Warning) ?rs =
      filter (\<lambda>it. severity (marker it) = Warning)
        (collect_items example_services show_all_filter (map example_heap [0, 1, 2]))"
    unfolding filterOptions_empty_table by blast
  from adj[rule_format, of 0] adj[rule_format, of 1] adj[rule_format, of 2]
  have "severity_rank (severity (marker (plain_item marker_error))) \<le>
      severity_rank (severity (marker (plain_item marker_warning))) \<and>
    severity_rank (severity (marker (plain_item marker_warning))) \<le>
      severity_rank (severity (marker (plain_item marker_late_warning))) \<and>
    severity_rank (severity (marker (plain_item marker_late_warning))) \<le>
      severity_rank (severity (marker (plain_item marker_info)))"
    unfolding rows_show_all by simp
  with stab show ?thesis
    unfolding collect_show_all using rows_show_all by simp
qed

text \<open>
  Claim C3, as amended. A marker of the dataset that is not of a walkthrough scheme and is
  not matched by the exclude matcher, and whose resource the include matcher matches,
  appears in the rows, whatever the severity toggles and the text filter (negated or
  not) are. The scheme check and the exclude check come first in the loop body: a marker
  they reject is skipped although the include matcher matches it.
\<close>

theorem included_marker_is_visible:
  assumes "m \<in> set (all_markers h rms)"
    and "\<not> is_walkThrough m"
    and "\<not> excludesMatcher (filterOptions st) (Marker_resource m)"
    and "includesMatcher (filterOptions st) (Marker_resource m)"
  shows "plain_item m \<in> set (rows (table (reset sv h st rms))) \<and>
         m \<in> set (map wrapped (rows (table (reset sv h st rms))))"
proof -
  from assms(2-4) have r: "reset_marker sv (filterOptions st) m = Some (plain_item m)"
    by (simp add: reset_marker_plain)
  with assms(1) have "plain_item m \<in> set (rows (table (reset sv h st rms)))"
    by (auto simp: set_rows_reset)
  moreover from r assms(1) have "m \<in> set (map wrapped (rows (table (reset sv h st rms))))"
    unfolding wrapped_rows_iff by simp
  ultimately show ?thesis by simp
qed

theorem included_marker_is_visible_witness:
  "marker_info \<in> set (all_markers example_heap [0, 1, 2]) \<and>
   \<not> is_walkThrough marker_info \<and>
   \<not> excludesMatcher include_b_filter (Marker_resource marker_info) \<and>
   includesMatcher include_b_filter (Marker_resource marker_info) \<and>
   \<not> matchesSeverity include_b_filter marker_info \<and>
   matched example_services ''foo'' marker_info \<and> negate (textFilter include_b_filter) \<and>
   plain_item marker_info
     \<in> set (rows (table (reset example_services example_heap
                            (empty_table include_b_filter) [0, 1, 2]))) \<and>
   marker_info
     \<in> set (map wrapped (rows (table (reset example_services example_heap
                                         (empty_table include_b_filter) [0, 1, 2]))))"
proof -
  have h1: "marker_info \<in> set (all_markers example_heap [0, 1, 2])"
    unfolding example_markers by simp
  have h2: "\<not> is_walkThrough marker_info"
    by (simp add: model_defs fixture_defs)
  have h3: "\<not> excludesMatcher include_b_filter (Marker_resource marker_info)"
    by (simp add: include_b_filter_def)
  have h4: "includesMatcher include_b_filter (Marker_resource marker_info)"
    by (simp add: model_defs fixture_defs)
  have h5: "\<not> matchesSeverity include_b_filter marker_info"
    by (simp add: model_defs fixture_defs)
  have h6: "matched example_services ''foo'' marker_info"
    by (simp add: model_defs fixture_defs)
  have h7: "negate (textFilter include_b_filter)"
    by (simp add: include_b_filter_def)
  from included_marker_is_visible[of marker_info example_heap "[0, 1, 2]"
      "empty_table include_b_filter" example_services] h1 h2 h3 h4 h5 h6 h7
  show ?thesis unfolding filterOptions_empty_table by simp
qed

text \<open>
  The claim as first stated fails: with a filter whose include matcher and exclude
  matcher both match every resource, a marker matched by the include matcher is in the
  dataset and the table stays empty.
\<close>

theorem excluded_include_match_hidden:
  "marker_info \<in> set (all_markers example_heap [0, 1, 2]) \<and>
   includesMatcher include_and_exclude_filter (Marker_resource marker_info) \<and>
   rows (table (reset example_services example_heap
                  (empty_table include_and_exclude_filter) [0, 1, 2])) = []"
  by (simp add: model_defs fixture_defs)

text \<open>
  Claim C4. Take a marker of the dataset that is not excluded (neither by its scheme nor
  by the exclude matcher), is not matched by the include matcher and has its severity
  toggle enabled, and a filter with a non-empty text. With negate set, the marker is in
  the rows exactly when none of the five fields (source, code, message, file label,
  owner) matches the text; with negate unset, exactly when at least one of them does.
\<close>

theorem negate_rule_decides_visibility:
  assumes "m \<in> set (all_markers h rms)"
    and "\<not> is_walkThrough m"
    and "\<not> excludesMatcher (filterOptions st) (Marker_resource m)"
    and "\<not> includesMatcher (filterOptions st) (Marker_resource m)"
    and "matchesSeverity (filterOptions st) m"
    and "text_of (textFilter (filterOptions st)) = Some t" and "t \<noteq> []"
  shows "(negate (textFilter (filterOptions st)) \<longrightarrow>
            (m \<in> set (map wrapped (rows (table (reset sv h st rms)))) \<longleftrightarrow>
             sourceMatches_for sv t m = None \<and> codeMatches_for sv t m = None \<and>
             messageMatches_for sv t m = None \<and> fileMatches_for sv t m = None \<and>
             ownerMatches_for sv t m = None)) \<and>
         (\<not> negate (textFilter (filterOptions st)) \<longrightarrow>
            (m \<in> set (map wrapped (rows (table (reset sv h st rms)))) \<longleftrightarrow>
             sourceMatches_for sv t m \<noteq> None \<or> codeMatches_for sv t m \<noteq> None \<or>
             messageMatches_for sv t m \<noteq> None \<or> fileMatches_for sv t m \<noteq> None \<or>
             ownerMatches_for sv t m \<noteq> None))"
proof -
  have "m \<in> set (map wrapped (rows (table (reset sv h st rms)))) \<longleftrightarrow>
        matched sv t m \<noteq> negate (textFilter (filterOptions st))"
    unfolding wrapped_rows_iff reset_marker_text[OF assms(2-7)] using assms(1) by simp
  then show ?thesis
    by (auto simp: matched_def truthy_matches_iff)
qed

theorem negate_rule_decides_visibility_witness:
  "marker_error \<in> set (all_markers example_heap [0, 1, 2]) \<and>
   marker_info \<in> set (all_markers example_heap [0, 1, 2]) \<and>
   text_of (textFilter (foo_filter True)) = Some ''foo'' \<and>
   sourceMatches_for example_services ''foo'' marker_error = None \<and>
   codeMatches_for example_services ''foo'' marker_error = None \<and>
   messageMatches_for example_services ''foo'' marker_error = None \<and>
   fileMatches_for example_services ''foo'' marker_error = None \<and>
   ownerMatches_for example_services ''foo'' marker_error = None \<and>
   codeMatches_for example_services ''foo'' marker_info \<noteq> None \<and>
   marker_error \<in> set (map wrapped (rows (table (reset example_services example_heap
                                (empty_table (foo_filter True)) [0, 1, 2])))) \<and>
   marker_info \<notin> set (map wrapped (rows (table (reset example_services example_heap
                                (empty_table (foo_filter True)) [0, 1, 2])))) \<and>
   marker_error \<notin> set (map wrapped (rows (table (reset example_services example_heap
                                (empty_table (foo_filter False)) [0, 1, 2])))) \<and>
   marker_info \<in> set (map wrapped (rows (table (reset example_services example_heap
                                (empty_table (foo_filter False)) [0, 1, 2]))))"
proof -
  have mem: "marker_error \<in> set (all_markers example_heap [0, 1, 2])"
      "marker_info \<in> set (all_markers example_heap [0, 1, 2])"
    unfolding example_markers by simp_all
  have pre: "\<not> is_walkThrough marker_error" "\<not> is_walkThrough marker_info"
      "\<not> excludesMatcher (foo_filter b) (Marker_resource m)"
      "\<not> includesMatcher (foo_filter b) (Marker_resource m)"
      "matchesSeverity (foo_filter b) marker_error" "matchesSeverity (foo_filter b) marker_info"
      "text_of (textFilter (foo_filter b)) = Some ''foo''" "''foo'' \<noteq> []"
      "negate (textFilter (foo_filter b)) = b" for b and m :: Marker
    by (simp_all add: model_defs fixture_defs)
  have spans: "sourceMatches_for example_services ''foo'' marker_error = None"
      "codeMatches_for example_services ''foo'' marker_error = None"
      "messageMatches_for example_services ''foo'' marker_error = None"
      "fileMatches_for example_services ''foo'' marker_error = None"
      "ownerMatches_for example_services ''foo'' marker_error = None"
      "codeMatches_for example_services ''foo'' marker_info \<noteq> None"
    by (simp_all add: model_defs fixture_defs)
  note t = negate_rule_decides_visibility[where h = example_heap and rms = "[0, 1, 2]"
      and sv = example_services and t = "''foo''"]
  from t[of marker_error "empty_table (foo_filter True)", unfolded filterOptions_empty_table]
       t[of marker_info "empty_table (foo_filter True)", unfolded filterOptions_empty_table]
       t[of marker_error "empty_table (foo_filter False)", unfolded filterOptions_empty_table]
       t[of marker_info "empty_table (foo_filter False)", unfolded filterOptions_empty_table]
       mem pre spans
  show ?thesis by simp
qed

section \<open>Updating groups\<close>

text \<open>
  Claim C5. \<^verbatim>\<open>update\<close> is to replace each given group in the stored array by identity and
  then reset, without duplicating or dropping markers of the other groups, also when a
  given group is not in the stored array. The code does not keep this: for a group that
  is not stored, \<^verbatim>\<open>indexOf\<close> returns \<open>-1\<close> and \<^verbatim>\<open>splice(-1, 1, group)\<close> overwrites the last
  stored group. With groups 0 and 1 stored, updating with the unknown group 2 leaves
  groups 0 and 2: the marker of group 1 is gone from the rows.
\<close>

theorem update_unknown_group_drops_last:
  "resourceMarkers (reset example_services example_heap (empty_table show_all_filter) [0, 1]) =
     [0, 1] \<and>
   map wrapped (rows (table (reset example_services example_heap
                              (empty_table show_all_filter) [0, 1]))) =
     [marker_error, marker_warning, marker_info] \<and>
   indexOf [0, 1] (2 :: ref) = - 1 \<and>
   resourceMarkers (update example_services example_heap
      (reset example_services example_heap (empty_table show_all_filter) [0, 1]) [2]) = [0, 2] \<and>
   map wrapped (rows (table (update example_services example_heap
      (reset example_services example_heap (empty_table show_all_filter) [0, 1]) [2]))) =
     [marker_error, marker_warning, marker_late_warning] \<and>
   marker_info \<in> set (markers (example_heap 1)) \<and>
   marker_info \<notin> set (map wrapped (rows (table (update example_services example_heap
      (reset example_services example_heap (empty_table show_all_filter) [0, 1]) [2]))))"
  by (simp add: model_defs fixture_defs)

section \<open>Resetting twice\<close>

text \<open>
  Claim C6. A second \<^verbatim>\<open>reset\<close> with the same groups, right after the first and under the
  same filter options, leaves the table as the first did: the same rows in the same
  order, wrapping the same markers, and the same visible item count.
\<close>

theorem reset_twice_same_rows:
  "reset sv h (reset sv h st rms) rms = reset sv h st rms \<and>
   rows (table (reset sv h (reset sv h st rms) rms)) = rows (table (reset sv h st rms)) \<and>
   map wrapped (rows (table (reset sv h (reset sv h st rms) rms))) =
     map wrapped (rows (table (reset sv h st rms))) \<and>
   getVisibleItemCount (reset sv h (reset sv h st rms) rms) =
     getVisibleItemCount (reset sv h st rms)"
proof -
  have "reset sv h (reset sv h st rms) rms = reset sv h st rms"
    by (simp add: reset_def Let_def table_splice_all_def)
  then show ?thesis by simp
qed

section \<open>The text filter\<close>

text \<open>
  Claim C7. When the text of the filter is absent or empty, \<^verbatim>\<open>reset\<close> works as without a
  text filter: the rows are exactly the markers that pass the scheme, exclude, include and
  severity checks, each as a row item without spans, sorted; the visible item count is
  their number. \<^verbatim>\<open>reset\<close> is a total function of the model: no branch of it raises.
\<close>

theorem reset_without_text_filter:
  assumes "\<not> truthy_string (text_of (textFilter (filterOptions st)))"
  shows "rows (table (reset sv h st rms)) =
           array_sort compare_items
             (map plain_item (filter (passes_checks (filterOptions st)) (all_markers h rms))) \<and>
         getVisibleItemCount (reset sv h st rms) =
           length (filter (passes_checks (filterOptions st)) (all_markers h rms)) \<and>
         set (rows (table (reset sv h st rms))) =
           plain_item ` {m \<in> set (all_markers h rms). passes_checks (filterOptions st) m} \<and>
         no_spans (plain_item m)"
proof -
  have c: "collect_items sv (filterOptions st) (map h rms) =
      map plain_item (filter (passes_checks (filterOptions st)) (all_markers h rms))"
  proof -
    have "reset_marker sv (filterOptions st) =
        (\<lambda>m. if passes_checks (filterOptions st) m then Some (plain_item m) else None)"
      by (rule ext) (rule reset_marker_no_text[OF assms])
    then show ?thesis
      by (simp only: collect_items_map_filter map_filter_if_Some)
  qed
  have r: "rows (table (reset sv h st rms)) =
           array_sort compare_items
             (map plain_item (filter (passes_checks (filterOptions st)) (all_markers h rms)))"
    by (simp add: rows_reset c)
  have n: "getVisibleItemCount (reset sv h st rms) =
           length (filter (passes_checks (filterOptions st)) (all_markers h rms))"
    by (simp add: getVisibleItemCount_def reset_def Let_def c)
  have s: "set (rows (table (reset sv h st rms))) =
           plain_item ` {m \<in> set (all_markers h rms). passes_checks (filterOptions st) m}"
    unfolding r by (simp add: array_sort_sort_key)
  have p: "no_spans (plain_item m)"
    by (simp add: no_spans_def plain_item_def new_MarkerTableItem_def)
  from r n s p show ?thesis by blast
qed

theorem reset_without_text_filter_witness:
  "\<not> truthy_string (text_of (textFilter show_all_filter)) \<and>
   text_of (textFilter show_all_filter) = None \<and>
   \<not> truthy_string (text_of (textFilter errors_only_filter)) \<and>
   text_of (textFilter errors_only_filter) = Some [] \<and>
   rows (table (reset example_services example_heap (empty_table show_all_filter) [0, 1, 2])) =
     [plain_item marker_error, plain_item marker_warning, plain_item marker_late_warning,
      plain_item marker_info] \<and>
   getVisibleItemCount
     (reset example_services example_heap (empty_table show_all_filter) [0, 1, 2]) = 4 \<and>
   rows (table (reset example_services example_heap (empty_table errors_only_filter) [0, 1, 2])) =
     [plain_item marker_error] \<and>
   getVisibleItemCount
     (reset example_services example_heap (empty_table errors_only_filter) [0, 1, 2]) = 1 \<and>
   no_spans (plain_item marker_error)"
proof -
  have h1: "\<not> truthy_string (text_of (textFilter show_all_filter))"
      "text_of (textFilter show_all_filter) = None"
    by (simp_all add: show_all_filter_def)
  have h2: "\<not> truthy_string (text_of (textFilter errors_only_filter))"
      "text_of (textFilter errors_only_filter) = Some []"
    by (simp_all add: errors_only_filter_def)
  have f1: "filter (passes_checks show_all_filter) (all_markers example_heap [0, 1, 2]) =
      [marker_warning, marker_error, marker_info, marker_late_warning]"
    by (simp add: model_defs fixture_defs)
  have f2: "filter (passes_checks errors_only_filter) (all_markers example_heap [0, 1, 2]) =
      [marker_error]"
    by (simp add: model_defs fixture_defs)
  have s1: "array_sort compare_items
      (map plain_item [marker_warning, marker_error, marker_info, marker_late_warning]) =
      [plain_item marker_error, plain_item marker_warning, plain_item marker_late_warning,
       plain_item marker_info]"
    by (simp add: model_defs fixture_defs)
  from reset_without_text_filter[of "empty_table show_all_filter" example_services
         example_heap "[0, 1, 2]" marker_error]
       reset_without_text_filter[of "empty_table errors_only_filter" example_services
         example_heap "[0, 1, 2]" marker_error]
       h1 h2
  show ?thesis unfolding filterOptions_empty_table f1 f2 s1 by simp
qed

text \<open>
  Claim C8. During text filtering a marker counts as matched if and only if at least one
  of the five independently computed span lists (source, code as the plain string or the
  display value of the link, message, file label, owner) is a non-empty span list; a
  source or a code that is absent contributes no match. The two matchers are imported:
  for the non-empty text of this branch they answer with the no-match signal or with a
  non-empty span list, which is the first pair of hypotheses. The marker is one that
  reaches the text filter, and what it counts as shows in the rows of \<^verbatim>\<open>reset\<close>: it is
  visible exactly when being matched differs from the negate flag.
\<close>

theorem matched_iff_nonempty_span_list:
  assumes "\<forall>s. FilterOptions_filter sv t s \<noteq> Some []"
    and "\<forall>s. FilterOptions_messageFilter sv t s \<noteq> Some []"
    and "m \<in> set (all_markers h rms)"
    and "\<not> is_walkThrough m"
    and "\<not> excludesMatcher (filterOptions st) (Marker_resource m)"
    and "\<not> includesMatcher (filterOptions st) (Marker_resource m)"
    and "matchesSeverity (filterOptions st) m"
    and "text_of (textFilter (filterOptions st)) = Some t" and "t \<noteq> []"
  shows "(matched sv t m \<longleftrightarrow>
            (truthy_string (source (marker m)) \<and>
               nonempty_matches (FilterOptions_filter sv t (the (source (marker m))))) \<or>
            (truthy_code (code (marker m)) \<and>
               nonempty_matches (FilterOptions_filter sv t
                 (case the (code (marker m)) of CodeString s \<Rightarrow> s | CodeLink v tg \<Rightarrow> v))) \<or>
            nonempty_matches (FilterOptions_messageFilter sv t (message (marker m))) \<or>
            nonempty_matches
              (FilterOptions_messageFilter sv t (getUriLabel sv (Marker_resource m))) \<or>
            nonempty_matches (FilterOptions_messageFilter sv t (owner (marker m)))) \<and>
         (m \<in> set (map wrapped (rows (table (reset sv h st rms)))) \<longleftrightarrow>
            ((truthy_string (source (marker m)) \<and>
               nonempty_matches (FilterOptions_filter sv t (the (source (marker m))))) \<or>
             (truthy_code (code (marker m)) \<and>
               nonempty_matches (FilterOptions_filter sv t
                 (case the (code (marker m)) of CodeString s \<Rightarrow> s | CodeLink v tg \<Rightarrow> v))) \<or>
             nonempty_matches (FilterOptions_messageFilter sv t (message (marker m))) \<or>
             nonempty_matches
               (FilterOptions_messageFilter sv t (getUriLabel sv (Marker_resource m))) \<or>
             nonempty_matches (FilterOptions_messageFilter sv t (owner (marker m))))
            \<noteq> negate (textFilter (filterOptions st))) \<and>
         sourceMatches_for sv t (m\<lparr>marker := (marker m)\<lparr>source := None\<rparr>\<rparr>) = None \<and>
         codeMatches_for sv t (m\<lparr>marker := (marker m)\<lparr>code := None\<rparr>\<rparr>) = None"
proof -
  let ?D = "(truthy_string (source (marker m)) \<and>
               nonempty_matches (FilterOptions_filter sv t (the (source (marker m))))) \<or>
            (truthy_code (code (marker m)) \<and>
               nonempty_matches (FilterOptions_filter sv t
                 (case the (code (marker m)) of CodeString s \<Rightarrow> s | CodeLink v tg \<Rightarrow> v))) \<or>
            nonempty_matches (FilterOptions_messageFilter sv t (message (marker m))) \<or>
            nonempty_matches
              (FilterOptions_messageFilter sv t (getUriLabel sv (Marker_resource m))) \<or>
            nonempty_matches (FilterOptions_messageFilter sv t (owner (marker m)))"
  have none: "\<not> nonempty_matches None"
    by (simp add: nonempty_matches_def)
  have fields:
    "nonempty_matches (sourceMatches_for sv t m) \<longleftrightarrow>
       truthy_string (source (marker m)) \<and>
       nonempty_matches (FilterOptions_filter sv t (the (source (marker m))))"
    "nonempty_matches (codeMatches_for sv t m) \<longleftrightarrow>
       truthy_code (code (marker m)) \<and>
       nonempty_matches (FilterOptions_filter sv t
         (case the (code (marker m)) of CodeString s \<Rightarrow> s | CodeLink v tg \<Rightarrow> v))"
    "nonempty_matches (messageMatches_for sv t m) \<longleftrightarrow>
       nonempty_matches (FilterOptions_messageFilter sv t (message (marker m)))"
    "nonempty_matches (fileMatches_for sv t m) \<longleftrightarrow>
       nonempty_matches (FilterOptions_messageFilter sv t (getUriLabel sv (Marker_resource m)))"
    "nonempty_matches (ownerMatches_for sv t m) \<longleftrightarrow>
       nonempty_matches (FilterOptions_messageFilter sv t (owner (marker m)))"
    by (simp_all add: sourceMatches_for_def codeMatches_for_def messageMatches_for_def
        fileMatches_for_def ownerMatches_for_def none)
  have m: "matched sv t m \<longleftrightarrow> ?D"
    unfolding matched_nonempty_spans[OF assms(1,2)] fields by (rule refl)
  have v: "m \<in> set (map wrapped (rows (table (reset sv h st rms)))) \<longleftrightarrow>
        matched sv t m \<noteq> negate (textFilter (filterOptions st))"
    unfolding wrapped_rows_iff reset_marker_text[OF assms(4-9)] using assms(3) by simp
  have a: "sourceMatches_for sv t (m\<lparr>marker := (marker m)\<lparr>source := None\<rparr>\<rparr>) = None"
      "codeMatches_for sv t (m\<lparr>marker := (marker m)\<lparr>code := None\<rparr>\<rparr>) = None"
    by (simp_all add: sourceMatches_for_def codeMatches_for_def)
  from m v a show ?thesis by simp
qed

theorem matched_iff_nonempty_span_list_witness:
  "(\<forall>s. FilterOptions_filter example_services ''foo'' s \<noteq> Some []) \<and>
   (\<forall>s. FilterOptions_messageFilter example_services ''foo'' s \<noteq> Some []) \<and>
   marker_info \<in> set (all_markers example_heap [0, 1, 2]) \<and>
   marker_warning \<in> set (all_markers example_heap [0, 1, 2]) \<and>
   truthy_code (code (marker marker_info)) \<and>
   nonempty_matches (FilterOptions_filter example_services ''foo'' ''foo-rule'') \<and>
   matched example_services ''foo'' marker_info \<and>
   marker_info \<in> set (map wrapped (rows (table (reset example_services example_heap
                                (empty_table (foo_filter False)) [0, 1, 2])))) \<and>
   marker_info \<notin> set (map wrapped (rows (table (reset example_services example_heap
                                (empty_table (foo_filter True)) [0, 1, 2])))) \<and>
   source (marker marker_warning) = None \<and> code (marker marker_warning) = None \<and>
   \<not> matched example_services ''foo'' marker_warning \<and>
   marker_warning \<notin> set (map wrapped (rows (table (reset example_services example_heap
                                (empty_table (foo_filter False)) [0, 1, 2])))) \<and>
   marker_warning \<in> set (map wrapped (rows (table (reset example_services example_heap
                                (empty_table (foo_filter True)) [0, 1, 2]))))"
proof -
  have c: "\<forall>s. FilterOptions_filter example_services ''foo'' s \<noteq> Some []"
      "\<forall>s. FilterOptions_messageFilter example_services ''foo'' s \<noteq> Some []"
    by (simp_all add: example_services_def example_filter_def)
  have mem: "marker_info \<in> set (all_markers example_heap [0, 1, 2])"
      "marker_warning \<in> set (all_markers example_heap [0, 1, 2])"
    unfolding example_markers by simp_all
  have pre: "\<not> is_walkThrough marker_info" "\<not> is_walkThrough marker_warning"
      "\<not> excludesMatcher (foo_filter b) (Marker_resource m)"
      "\<not> includesMatcher (foo_filter b) (Marker_resource m)"
      "matchesSeverity (foo_filter b) marker_info" "matchesSeverity (foo_filter b) marker_warning"
      "text_of (textFilter (foo_filter b)) = Some ''foo''" "''foo'' \<noteq> []"
      "negate (textFilter (foo_filter b)) = b" for b and m :: Marker
    by (simp_all add: model_defs fixture_defs)
  have e: "truthy_code (code (marker marker_info))"
      "the (code (marker marker_info)) =
         CodeLink ''foo-rule'' \<lparr>scheme = ''https'', path = ''rules''\<rparr>"
      "nonempty_matches (FilterOptions_filter example_services ''foo'' ''foo-rule'')"
      "source (marker marker_warning) = None" "code (marker marker_warning) = None"
      "\<not> nonempty_matches
           (FilterOptions_messageFilter example_services ''foo'' (message (marker marker_warning)))"
      "\<not> nonempty_matches (FilterOptions_messageFilter example_services ''foo''
           (getUriLabel example_services (Marker_resource marker_warning)))"
      "\<not> nonempty_matches
           (FilterOptions_messageFilter example_services ''foo'' (owner (marker marker_warning)))"
    by (simp_all add: model_defs fixture_defs nonempty_matches_def)
  note t = matched_iff_nonempty_span_list[where h = example_heap and rms = "[0, 1, 2]"
      and sv = example_services and t = "''foo''", OF c]
  from t[of marker_info "empty_table (foo_filter False)", unfolded filterOptions_empty_table]
       t[of marker_info "empty_table (foo_filter True)", unfolded filterOptions_empty_table]
       t[of marker_warning "empty_table (foo_filter False)", unfolded filterOptions_empty_table]
       t[of marker_warning "empty_table (foo_filter True)", unfolded filterOptions_empty_table]
       c mem pre e
  show ?thesis by simp
qed

section \<open>Focus\<close>

text \<open>
  Claim C9, as amended. \<^verbatim>\<open>getFocus\<close> is a stub: it returns the empty list whatever the
  state of the table is, its focus included.
\<close>

theorem getFocus_is_constant:
  "getFocus st = [] \<and> getFocus (st\<lparr>table := t\<rparr>) = getFocus st"
  by (simp add: getFocus_def)

text \<open>
  The claim as first stated has \<^verbatim>\<open>getFocus\<close> reflect the focus of the table. Two tables
  that differ in their focus, one with row 0 focused and one without focus, give the same
  empty answer.
\<close>

theorem getFocus_ignores_focus:
  "focus (table focused_table) = [0] \<and>
   focus (table (focused_table\<lparr>table := (table focused_table)\<lparr>focus := []\<rparr>\<rparr>)) = [] \<and>
   getFocus focused_table = [] \<and>
   getFocus (focused_table\<lparr>table := (table focused_table)\<lparr>focus := []\<rparr>\<rparr>) = []"
  by (simp add: getFocus_def focused_table_def)

section \<open>Rows admitted by the include matcher\<close>



end
